theory Spec2Isabelle
  imports Main "HOL-Library.Word" "HOL-Library.Finite_Map" "HOL-Library.Sublist"
begin

section \<open>Wire-level data\<close>

text \<open>
  The Go types of the btcd wire package that the notifier and the filtered chain view
  touch. A \<open>chainhash.Hash\<close> is 32 bytes. Go's sized integers are words of their
  width; the signed ones are the same words read in two's complement (\<open>sint\<close>), so the
  conversion \<open>uint32(height)\<close> of an \<open>int32\<close> keeps the bit pattern.
\<close>

type_synonym hash = "256 word"
type_synonym uint32 = "32 word"
type_synonym int32 = "32 word"
type_synonym int64 = "64 word"
type_synonym uint64 = "64 word"
type_synonym bytes = "8 word list"

record OutPoint =
  Hash :: hash
  Index :: uint32

record TxIn =
  PreviousOutPoint :: OutPoint
  SignatureScript :: bytes
  Sequence :: uint32

record TxOut =
  Value :: int64
  PkScript :: bytes

record MsgTx =
  Version :: int32
  TxIn :: "TxIn list"
  TxOut :: "TxOut list"
  LockTime :: uint32

text \<open>\<open>btcutil.Tx\<close> wraps a \<open>wire.MsgTx\<close>; \<open>tx.MsgTx()\<close> returns it.\<close>

datatype Tx = NewTx (MsgTx: MsgTx)

text \<open>\<open>wire.MsgBlock\<close>; the header plays no part in what follows.\<close>

record MsgBlock =
  Transactions :: "MsgTx list"

definition uint32_of_int32 :: "int32 \<Rightarrow> uint32" where
  "uint32_of_int32 h = ucast h"

text \<open>
  Go errors as values. \<open>fmt.Errorf\<close> and \<open>errors.New\<close> are kept with their format
  string only; \<open>*btcjson.RPCError\<close> keeps its code and message, which
  \<open>confDetailsFromTxIndex\<close> inspects; \<open>ErrBackend\<close> is any other error of a
  collaborator.
\<close>

datatype error =
    ErrChainNotifierShuttingDown
  | RPCError (Code: int) (Message: string)
  | ErrBackend string
  | Errorf string

section \<open>The filtered chain view (package chainview)\<close>

record FilteredBlock =
  Hash :: hash
  Height :: uint32
  Transactions :: "MsgTx list"

datatype chainEventType = connected | disconnected

record blockEvent =
  eventType :: chainEventType
  block :: FilteredBlock

record filterUpdate =
  newUtxos :: "OutPoint list"
  updateHeight :: uint32

text \<open>\<open>channeldb.EdgePoint\<close>: the funding script and the outpoint of a channel.\<close>

record EdgePoint =
  FundingPkScript :: bytes
  OutPoint :: OutPoint

text \<open>
  Every operation on \<open>filterMtx\<close> and on the \<open>chainFilter\<close> map it guards is
  written to a log, in program order, so that "under the write lock" is a property of
  the log.
\<close>

datatype filterOp = Lock | Unlock | RLock | RUnlock | Delete OutPoint

record LWFilteredChainView =
  chainFilter :: "(OutPoint, bytes) fmap"
  filterMtx :: "filterOp list"
  blockQueue :: "blockEvent list"
  quit :: bool

text \<open>
  Modelled from the spec: \<open>blockEventQueue.Add\<close> is not part of the sources at hand.
  The spec's contract for it (section 4.1) is that \<open>Add(event)\<close> appends to the tail of
  a FIFO sequence.
\<close>

definition blockQueue_Add :: "blockEvent \<Rightarrow> LWFilteredChainView \<Rightarrow> LWFilteredChainView" where
  "blockQueue_Add ev c = c\<lparr>blockQueue := blockQueue c @ [ev]\<rparr>"

text \<open>
  The inner loop of \<open>onFilteredBlockConnected\<close>: for each input of one transaction,
  \<open>Lock(); delete(c.chainFilter, txIn.PreviousOutPoint); Unlock()\<close>.
\<close>

fun deleteSpent :: "TxIn list \<Rightarrow> LWFilteredChainView \<Rightarrow> LWFilteredChainView" where
  "deleteSpent [] c = c"
| "deleteSpent (txIn # ins) c =
     deleteSpent ins
       (c\<lparr>chainFilter := fmdrop (PreviousOutPoint txIn) (chainFilter c),
          filterMtx := filterMtx c @ [Lock, Delete (PreviousOutPoint txIn), Unlock]\<rparr>)"

text \<open>
  The outer loop: \<open>mtxs[i] = tx.MsgTx()\<close> for every transaction, then the inner loop
  over its inputs. The accumulator is the prefix of \<open>mtxs\<close> filled so far.
\<close>

fun connectTxns :: "Tx list \<Rightarrow> MsgTx list \<Rightarrow> LWFilteredChainView
    \<Rightarrow> MsgTx list \<times> LWFilteredChainView" where
  "connectTxns [] mtxs c = (mtxs, c)"
| "connectTxns (tx # txns) mtxs c =
     (let mtx = MsgTx tx in connectTxns txns (mtxs @ [mtx]) (deleteSpent (TxIn mtx) c))"

text \<open>
  \<open>header.BlockHash()\<close> is the double SHA-256 of the serialised header, computed by
  the wire package; it is a parameter of the model.
\<close>

definition onFilteredBlockConnected :: "('hdr \<Rightarrow> hash) \<Rightarrow> int32 \<Rightarrow> 'hdr \<Rightarrow> Tx list
    \<Rightarrow> LWFilteredChainView \<Rightarrow> LWFilteredChainView" where
  "onFilteredBlockConnected BlockHash height header txns c =
     (case connectTxns txns [] c of (mtxs, c') \<Rightarrow>
        blockQueue_Add
          \<lparr>eventType = connected,
           block = \<lparr>FilteredBlock.Hash = BlockHash header, Height = uint32_of_int32 height,
                    Transactions = mtxs\<rparr>\<rparr> c')"

definition onFilteredBlockDisconnected :: "('hdr \<Rightarrow> hash) \<Rightarrow> int32 \<Rightarrow> 'hdr
    \<Rightarrow> LWFilteredChainView \<Rightarrow> LWFilteredChainView" where
  "onFilteredBlockDisconnected BlockHash height header c =
     blockQueue_Add
       \<lparr>eventType = disconnected,
        block = \<lparr>FilteredBlock.Hash = BlockHash header, Height = uint32_of_int32 height,
                 Transactions = []\<rparr>\<rparr> c"

text \<open>
  \<open>FilterBlock\<close>. The height lookup is the backend's \<open>GetBlockHeight\<close>. With a
  non-empty filter the function copies the watched scripts into \<open>relevantPoints\<close>
  under the read lock and then returns the same block. Go ranges over a map in an
  unspecified order; \<open>relevantPoints\<close> is never read afterwards, so the model keeps
  the scripts as the set \<open>fmran\<close>.
\<close>

definition FilterBlock :: "(hash \<Rightarrow> error + int32) \<Rightarrow> hash \<Rightarrow> LWFilteredChainView
    \<Rightarrow> (error + FilteredBlock) \<times> LWFilteredChainView" where
  "FilterBlock GetBlockHeight blockHash c =
     (case GetBlockHeight blockHash of
        Inl err \<Rightarrow> (Inl err, c)
      | Inr blockHeight \<Rightarrow>
          (let filteredBlock = \<lparr>FilteredBlock.Hash = blockHash, Height = uint32_of_int32 blockHeight,
                                 Transactions = []\<rparr>
           in if fmdom (chainFilter c) = {||}
              then (Inr filteredBlock, c\<lparr>filterMtx := filterMtx c @ [RLock, RUnlock]\<rparr>)
              else
                (let relevantPoints = fmran (chainFilter c)
                 in (Inr filteredBlock,
                     c\<lparr>filterMtx := filterMtx c @ [RLock, RUnlock, RLock, RUnlock]\<rparr>))))"

text \<open>
  \<open>chainFilterer\<close>, one iteration of its \<open>select\<close>. The filter-update case only
  logs the update: the insertion into \<open>chainFilter\<close> is commented out in the source.
\<close>

datatype chainFiltererMsg = FilterUpdateMsg filterUpdate | RescanErrMsg error | QuitMsg

fun chainFilterer_step :: "chainFiltererMsg \<Rightarrow> LWFilteredChainView \<Rightarrow> LWFilteredChainView" where
  "chainFilterer_step (FilterUpdateMsg update) c = c"
| "chainFilterer_step (RescanErrMsg err) c = c"
| "chainFilterer_step QuitMsg c = c"

text \<open>
  \<open>UpdateFilter\<close> sends the update on the unbuffered channel \<open>filterUpdates\<close>, so a
  successful send is the moment \<open>chainFilterer\<close> receives it (the view has been
  started, as the interface requires before any call). When \<open>quit\<close> is closed the
  \<open>select\<close> may take either ready case; \<open>sendWins\<close> is the runtime's choice.
\<close>

definition UpdateFilter :: "bool \<Rightarrow> EdgePoint list \<Rightarrow> uint32 \<Rightarrow> LWFilteredChainView
    \<Rightarrow> error option \<times> LWFilteredChainView" where
  "UpdateFilter sendWins ops updHeight c =
     (let newUtxos = map OutPoint ops
      in if quit c \<and> \<not> sendWins then (Some (Errorf ''chain filter shutting down''), c)
         else (None, chainFilterer_step
                 (FilterUpdateMsg \<lparr>newUtxos = newUtxos, updateHeight = updHeight\<rparr>) c))"

section \<open>The chain notifier (package lightwalletnotify)\<close>

subsection \<open>Data\<close>

record BlockEpoch =
  Height :: int32
  Hash :: hash

text \<open>
  \<open>chainntnfs.ConfRequest\<close>: the transaction hash and the output script of a
  confirmation request; \<open>PkScript.Script()\<close> is the script's bytes.
\<close>

record ConfRequest =
  TxID :: hash
  PkScript :: bytes

record TxConfirmation =
  Tx :: MsgTx
  BlockHash :: hash
  BlockHeight :: uint32
  TxIndex :: uint32

datatype TxConfStatus =
  TxFoundMempool | TxFoundIndex | TxNotFoundIndex | TxFoundManually | TxNotFoundManually

text \<open>The two btcjson results that \<open>confDetailsFromTxIndex\<close> reads.\<close>

record TxRawResult =
  Hex :: string
  BlockHash :: string

record GetBlockVerboseResult =
  Tx :: "string list"
  Height :: int64

text \<open>
  The backend collaborator \<open>chain.LightWalletClient\<close>, one field per call the notifier
  makes. \<open>'f\<close> is the compact filter type (\<open>*gcs.Filter\<close>); a \<open>nil\<close> filter is
  \<open>None\<close>.
\<close>

record 'f chainConn =
  GetBlockHash :: "int64 \<Rightarrow> error + hash"
  GetCFilter :: "hash \<Rightarrow> error + 'f option"
  GetFilterBlock :: "hash \<Rightarrow> error + MsgTx list"
  GetBlock :: "hash \<Rightarrow> error + MsgBlock"
  GetRawTransactionVerbose :: "hash \<Rightarrow> error + TxRawResult"
  GetBlockVerbose :: "hash \<Rightarrow> error + GetBlockVerboseResult"

text \<open>
  Functions of other packages that the notifier calls: \<open>builder.DeriveKey\<close> and
  \<open>filter.Match\<close> of the gcs package, \<open>ConfRequest.MatchesTx\<close> of chainntnfs,
  \<open>chainhash.NewHashFromStr\<close> and \<open>Hash.String\<close>, \<open>hex.DecodeString\<close> and
  \<open>MsgTx.Deserialize\<close>. They are parameters of the model.
\<close>

record 'f deps =
  DeriveKey :: "hash \<Rightarrow> 128 word"
  Match :: "'f \<Rightarrow> 128 word \<Rightarrow> bytes \<Rightarrow> error + bool"
  MatchesTx :: "ConfRequest \<Rightarrow> MsgTx \<Rightarrow> bool"
  NewHashFromStr :: "string \<Rightarrow> error + hash"
  HashString :: "hash \<Rightarrow> string"
  DecodeString :: "string \<Rightarrow> error + bytes"
  Deserialize :: "bytes \<Rightarrow> error + MsgTx"

subsection \<open>The historical resolver\<close>

text \<open>
  \<open>for i, tx := range transactions { if !confRequest.MatchesTx(tx) { continue }; return ... }\<close>:
  the first matching transaction and its index, if any.
\<close>

fun firstMatch :: "(MsgTx \<Rightarrow> bool) \<Rightarrow> MsgTx list \<Rightarrow> nat \<Rightarrow> (nat \<times> MsgTx) option" where
  "firstMatch P [] i = None"
| "firstMatch P (tx # txs) i = (if \<not> P tx then firstMatch P txs (Suc i) else Some (i, tx))"

text \<open>
  The loop of \<open>historicalConfDetails\<close> at the head of the iteration for
  \<open>scanHeight\<close>. The non-blocking \<open>select\<close> on \<open>b.quit\<close> reads whether shutdown has
  been signalled when that iteration starts: \<open>quitAt scanHeight\<close>. The result is Go's
  pair (confirmation, error).
\<close>

function historicalConfDetails_loop :: "'f chainConn \<Rightarrow> 'f deps \<Rightarrow> (uint32 \<Rightarrow> bool)
    \<Rightarrow> ConfRequest \<Rightarrow> uint32 \<Rightarrow> uint32 \<Rightarrow> TxConfirmation option \<times> error option" where
  "historicalConfDetails_loop b d quitAt confRequest startHeight scanHeight =
     (if scanHeight \<ge> startHeight \<and> scanHeight > 0 then
        if quitAt scanHeight then (None, Some ErrChainNotifierShuttingDown)
        else
          (case GetBlockHash b (ucast scanHeight) of
             Inl err \<Rightarrow> (None, Some (Errorf ''unable to get header for height=%v: %v''))
           | Inr blockHash \<Rightarrow>
               (case GetCFilter b blockHash of
                  Inl err \<Rightarrow>
                    (None, Some (Errorf ''unable to retrieve regular filter for height=%v: %v''))
                | Inr None \<Rightarrow>
                    historicalConfDetails_loop b d quitAt confRequest startHeight (scanHeight - 1)
                | Inr (Some cfilter) \<Rightarrow>
                    (case Match d cfilter (DeriveKey d blockHash) (ConfRequest.PkScript confRequest) of
                       Inl err \<Rightarrow> (None, Some (Errorf ''unable to query filter: %v''))
                     | Inr match \<Rightarrow>
                         if \<not> match then
                           historicalConfDetails_loop b d quitAt confRequest startHeight
                             (scanHeight - 1)
                         else
                           (case GetFilterBlock b blockHash of
                              Inl err \<Rightarrow>
                                (None, Some (Errorf ''unable to get block from network: %v''))
                            | Inr transactions \<Rightarrow>
                                (case firstMatch (MatchesTx d confRequest) transactions 0 of
                                   Some (i, tx) \<Rightarrow>
                                     (Some \<lparr>TxConfirmation.Tx = tx,
                                            BlockHash = blockHash,
                                            BlockHeight = scanHeight,
                                            TxIndex = of_nat i\<rparr>, None)
                                 | None \<Rightarrow>
                                     historicalConfDetails_loop b d quitAt confRequest
                                       startHeight (scanHeight - 1))))))
      else (None, None))"
  by pat_completeness auto
termination
  by (relation "measure (\<lambda>(b, d, q, r, startHeight, scanHeight). unat scanHeight)")
     (auto simp: unat_minus_one unat_gt_0 word_greater_zero_iff)

definition historicalConfDetails :: "'f chainConn \<Rightarrow> 'f deps \<Rightarrow> (uint32 \<Rightarrow> bool)
    \<Rightarrow> ConfRequest \<Rightarrow> uint32 \<Rightarrow> uint32 \<Rightarrow> TxConfirmation option \<times> error option" where
  "historicalConfDetails b d quitAt confRequest startHeight endHeight =
     historicalConfDetails_loop b d quitAt confRequest startHeight endHeight"

text \<open>
  \<open>confDetailsFromTxIndex\<close>. \<open>btcjson.ErrRPCNoTxInfo\<close> is the RPC error code -5;
  \<open>strings.Contains(msg, sub)\<close> is \<open>sublist sub msg\<close>. The loop over \<open>block.Tx\<close>
  stops at the first entry equal to \<open>txid.String()\<close>.
\<close>

definition ErrRPCNoTxInfo :: int where
  "ErrRPCNoTxInfo = - 5"

definition txNotFoundErr :: string where
  "txNotFoundErr = ''No such mempool or blockchain transaction''"

fun firstTxHash :: "string \<Rightarrow> string list \<Rightarrow> nat \<Rightarrow> nat option" where
  "firstTxHash txidStr [] txIndex = None"
| "firstTxHash txidStr (txHash # rest) txIndex =
     (if txHash \<noteq> txidStr then firstTxHash txidStr rest (Suc txIndex) else Some txIndex)"

definition confDetailsFromTxIndex :: "'f chainConn \<Rightarrow> 'f deps \<Rightarrow> hash
    \<Rightarrow> TxConfirmation option \<times> TxConfStatus \<times> error option" where
  "confDetailsFromTxIndex b d txid =
     (case GetRawTransactionVerbose b txid of
        Inl err \<Rightarrow>
          (case err of
             RPCError code msg \<Rightarrow>
               if code = ErrRPCNoTxInfo \<and> sublist txNotFoundErr msg
               then (None, TxNotFoundIndex, None)
               else (None, TxNotFoundIndex, Some (Errorf ''unable to query for txid %v: %v''))
           | _ \<Rightarrow> (None, TxNotFoundIndex, Some (Errorf ''unable to query for txid %v: %v'')))
      | Inr rawTxRes \<Rightarrow>
          if TxRawResult.BlockHash rawTxRes = [] then (None, TxFoundMempool, None)
          else
            (case NewHashFromStr d (TxRawResult.BlockHash rawTxRes) of
               Inl err \<Rightarrow>
                 (None, TxNotFoundIndex,
                  Some (Errorf ''unable to get block hash %v for historical dispatch: %v''))
             | Inr blockHash \<Rightarrow>
                 (case GetBlockVerbose b blockHash of
                    Inl err \<Rightarrow>
                      (None, TxNotFoundIndex,
                       Some (Errorf ''unable to get block with hash %v for historical dispatch: %v''))
                  | Inr blk \<Rightarrow>
                      (case firstTxHash (HashString d txid) (GetBlockVerboseResult.Tx blk) 0 of
                         None \<Rightarrow>
                           (None, TxNotFoundIndex,
                            Some (Errorf ''unable to locate tx %v in block %v''))
                       | Some txIndex \<Rightarrow>
                           (case DecodeString d (Hex rawTxRes) of
                              Inl err \<Rightarrow>
                                (None, TxFoundIndex,
                                 Some (Errorf ''unable to deserialize tx %v: %v''))
                            | Inr rawTx \<Rightarrow>
                                (case Deserialize d rawTx of
                                   Inl err \<Rightarrow>
                                     (None, TxFoundIndex,
                                      Some (Errorf ''unable to deserialize tx %v: %v''))
                                 | Inr tx \<Rightarrow>
                                     (Some \<lparr>TxConfirmation.Tx = tx,
                                            BlockHash = blockHash,
                                            BlockHeight = ucast (GetBlockVerboseResult.Height blk),
                                            TxIndex = of_nat txIndex\<rparr>,
                                      TxFoundIndex, None)))))))"

text \<open>
  The loop of \<open>confDetailsManually\<close> at the head of the iteration for \<open>height\<close>;
  the result is Go's triple (confirmation, status, error).
\<close>

function confDetailsManually_loop :: "'f chainConn \<Rightarrow> 'f deps \<Rightarrow> (uint32 \<Rightarrow> bool)
    \<Rightarrow> ConfRequest \<Rightarrow> uint32 \<Rightarrow> uint32
    \<Rightarrow> TxConfirmation option \<times> TxConfStatus \<times> error option" where
  "confDetailsManually_loop b d quitAt confRequest heightHint height =
     (if height \<ge> heightHint \<and> height > 0 then
        if quitAt height then (None, TxNotFoundManually, Some ErrChainNotifierShuttingDown)
        else
          (case GetBlockHash b (ucast height) of
             Inl err \<Rightarrow>
               (None, TxNotFoundManually,
                Some (Errorf ''unable to get hash from block with height %d''))
           | Inr blockHash \<Rightarrow>
               (case GetBlock b blockHash of
                  Inl err \<Rightarrow>
                    (None, TxNotFoundManually,
                     Some (Errorf ''unable to get block with hash %v: %v''))
                | Inr blk \<Rightarrow>
                    (case firstMatch (MatchesTx d confRequest) (MsgBlock.Transactions blk) 0 of
                       Some (txIndex, tx) \<Rightarrow>
                         (Some \<lparr>TxConfirmation.Tx = tx,
                                BlockHash = blockHash,
                                BlockHeight = height,
                                TxIndex = of_nat txIndex\<rparr>,
                          TxFoundManually, None)
                     | None \<Rightarrow>
                         confDetailsManually_loop b d quitAt confRequest heightHint
                           (height - 1))))
      else (None, TxNotFoundManually, None))"
  by pat_completeness auto
termination
  by (relation "measure (\<lambda>(b, d, q, r, heightHint, height). unat height)")
     (auto simp: unat_minus_one unat_gt_0 word_greater_zero_iff)

definition confDetailsManually :: "'f chainConn \<Rightarrow> 'f deps \<Rightarrow> (uint32 \<Rightarrow> bool)
    \<Rightarrow> ConfRequest \<Rightarrow> uint32 \<Rightarrow> uint32
    \<Rightarrow> TxConfirmation option \<times> TxConfStatus \<times> error option" where
  "confDetailsManually b d quitAt confRequest heightHint currentHeight =
     confDetailsManually_loop b d quitAt confRequest heightHint currentHeight"

subsection \<open>The dispatcher\<close>

text \<open>
  A block-epoch registration, as the dispatcher sees it. \<open>epochQueue\<close> holds what has
  been sent into \<open>epochQueue.ChanIn()\<close>, oldest first; \<open>errorChan\<close> is the content of
  the buffered channel of capacity 1; \<open>cancelChan\<close> is a channel that is only ever
  closed, so it is the flag "closed".
\<close>

record blockEpochRegistration =
  epochID :: uint64
  epochQueue :: "BlockEpoch list"
  bestBlock :: "BlockEpoch option"
  errorChan :: "error option list"
  cancelChan :: bool

text \<open>
  The external tracker \<open>chainntnfs.TxNotifier\<close> is a black box: the model records the
  calls made to it, in order, and takes the errors it returns as parameters.
\<close>

datatype txNotifierCall =
    ConnectTip hash uint32 "Tx list"
  | NotifyHeight uint32
  | UpdateConfDetails ConfRequest "TxConfirmation option"

record txNotifierResults =
  ConnectTipErr :: "hash \<Rightarrow> uint32 \<Rightarrow> Tx list \<Rightarrow> error option"
  NotifyHeightErr :: "uint32 \<Rightarrow> error option"
  UpdateConfDetailsErr :: "ConfRequest \<Rightarrow> TxConfirmation option \<Rightarrow> error option"

record HistoricalConfDispatch =
  ConfRequest :: ConfRequest
  StartHeight :: uint32
  EndHeight :: uint32

text \<open>
  The notifier. \<open>goroutines\<close> are the historical-confirmation tasks the dispatcher has
  started with \<open>go func() {...}()\<close> and that have not run yet; \<open>dispatcherDone\<close> is
  set when the dispatcher loop has left through \<open>break out\<close>.
\<close>

record LightWalletNotifier =
  blockEpochClients :: "(uint64, blockEpochRegistration) fmap"
  bestBlock :: BlockEpoch
  txNotifier :: "txNotifierCall list"
  goroutines :: "HistoricalConfDispatch list"
  quit :: bool
  dispatcherDone :: bool

text \<open>
  \<open>notifyBlockEpochClient\<close>: a \<open>select\<close> over the send into the client's queue, the
  client's \<open>cancelChan\<close> and \<open>b.quit\<close>. The queue accepts every send; when one of the
  two channels is closed as well, Go takes any ready case, and \<open>sendWins\<close> says whether
  it takes the send.
\<close>

definition notifyBlockEpochClient :: "bool \<Rightarrow> bool \<Rightarrow> blockEpochRegistration \<Rightarrow> int32 \<Rightarrow> hash
    \<Rightarrow> blockEpochRegistration" where
  "notifyBlockEpochClient sendWins quitClosed epochClient height sha =
     (let epoch = \<lparr>BlockEpoch.Height = height, Hash = sha\<rparr>
      in if (cancelChan epochClient \<or> quitClosed) \<and> \<not> sendWins then epochClient
         else epochClient\<lparr>epochQueue := epochQueue epochClient @ [epoch]\<rparr>)"

text \<open>
  The registration message is a pointer that the dispatcher first stores in
  \<open>blockEpochClients\<close>; a notification to \<open>msg\<close> therefore changes the map's entry.
\<close>

definition notifyRegistered :: "(uint64 \<Rightarrow> int32 \<Rightarrow> bool) \<Rightarrow> uint64 \<Rightarrow> int32 \<Rightarrow> hash
    \<Rightarrow> LightWalletNotifier \<Rightarrow> LightWalletNotifier" where
  "notifyRegistered sendWins i height sha n =
     (case fmlookup (blockEpochClients n) i of
        None \<Rightarrow> n
      | Some epochClient \<Rightarrow>
          n\<lparr>blockEpochClients :=
               fmupd i (notifyBlockEpochClient (sendWins i height) (quit n) epochClient height sha)
                 (blockEpochClients n)\<rparr>)"

text \<open>
  \<open>msg.errorChan <- err\<close> on the buffered channel of capacity 1: the send goes through
  when the buffer is empty; otherwise the dispatcher blocks, which is \<open>None\<close>.
\<close>

definition sendErrorChan :: "uint64 \<Rightarrow> error option \<Rightarrow> LightWalletNotifier
    \<Rightarrow> LightWalletNotifier option" where
  "sendErrorChan i err n =
     (case fmlookup (blockEpochClients n) i of
        None \<Rightarrow> None
      | Some epochClient \<Rightarrow>
          if length (errorChan epochClient) < 1
          then Some (n\<lparr>blockEpochClients :=
                        fmupd i (epochClient\<lparr>errorChan := errorChan epochClient @ [err]\<rparr>)
                          (blockEpochClients n)\<rparr>)
          else None)"

fun notifyMissed :: "(uint64 \<Rightarrow> int32 \<Rightarrow> bool) \<Rightarrow> uint64 \<Rightarrow> BlockEpoch list
    \<Rightarrow> LightWalletNotifier \<Rightarrow> LightWalletNotifier" where
  "notifyMissed sendWins i [] n = n"
| "notifyMissed sendWins i (blk # missedBlocks) n =
     notifyMissed sendWins i missedBlocks
       (notifyRegistered sendWins i (BlockEpoch.Height blk) (BlockEpoch.Hash blk) n)"

text \<open>\<open>notifyBlockEpochs\<close>: every client in the map, each through its own queue.\<close>

definition notifyBlockEpochs :: "(uint64 \<Rightarrow> int32 \<Rightarrow> bool) \<Rightarrow> int32 \<Rightarrow> hash
    \<Rightarrow> LightWalletNotifier \<Rightarrow> LightWalletNotifier" where
  "notifyBlockEpochs sendWins newHeight newSha n =
     n\<lparr>blockEpochClients :=
          fmmap_keys
            (\<lambda>i client. notifyBlockEpochClient (sendWins i newHeight) (quit n) client newHeight newSha)
            (blockEpochClients n)\<rparr>"

text \<open>
  \<open>handleBlockConnected\<close>; \<open>btcutil.NewBlock(rawBlock).Transactions()\<close> wraps each
  transaction of the block.
\<close>

definition handleBlockConnected :: "'f chainConn \<Rightarrow> txNotifierResults
    \<Rightarrow> (uint64 \<Rightarrow> int32 \<Rightarrow> bool) \<Rightarrow> BlockEpoch \<Rightarrow> LightWalletNotifier
    \<Rightarrow> error option \<times> LightWalletNotifier" where
  "handleBlockConnected b tr sendWins blk n =
     (case GetBlock b (BlockEpoch.Hash blk) of
        Inl err \<Rightarrow> (Some (Errorf ''unable to get block: %v''), n)
      | Inr rawBlock \<Rightarrow>
          (let txns = map NewTx (MsgBlock.Transactions rawBlock);
               hgt = uint32_of_int32 (BlockEpoch.Height blk);
               n1 = n\<lparr>txNotifier := txNotifier n @ [ConnectTip (BlockEpoch.Hash blk) hgt txns]\<rparr>
           in case ConnectTipErr tr (BlockEpoch.Hash blk) hgt txns of
                Some err \<Rightarrow> (Some (Errorf ''unable to connect tip: %v''), n1)
              | None \<Rightarrow>
                  (let n2 = n1\<lparr>bestBlock := blk\<rparr>;
                       n3 = notifyBlockEpochs sendWins (BlockEpoch.Height blk)
                              (BlockEpoch.Hash blk) n2
                   in (NotifyHeightErr tr hgt,
                       n3\<lparr>txNotifier := txNotifier n3 @ [NotifyHeight hgt]\<rparr>))))"

text \<open>
  The body of the goroutine that the dispatcher starts for a historical confirmation
  dispatch: an error of the scan is logged and ends the task; otherwise
  \<open>UpdateConfDetails\<close> is called with whatever the scan returned, and its own error is
  only logged.
\<close>

definition historicalConfTask :: "'f chainConn \<Rightarrow> 'f deps \<Rightarrow> (uint32 \<Rightarrow> bool)
    \<Rightarrow> HistoricalConfDispatch \<Rightarrow> LightWalletNotifier \<Rightarrow> LightWalletNotifier" where
  "historicalConfTask b d quitAt msg n =
     (case historicalConfDetails b d quitAt (ConfRequest msg) (StartHeight msg) (EndHeight msg) of
        (confDetails, Some err) \<Rightarrow> n
      | (confDetails, None) \<Rightarrow>
          n\<lparr>txNotifier := txNotifier n @ [UpdateConfDetails (ConfRequest msg) confDetails]\<rparr>)"

text \<open>
  The messages of the dispatcher's \<open>select\<close>, and one iteration of its loop.
  \<open>chainntnfs.GetClientMissedBlocks\<close> belongs to another package and is a parameter.
  The result is \<open>None\<close> when the dispatcher blocks in this iteration.
\<close>

datatype registerMsg =
    HistoricalConfDispatchMsg HistoricalConfDispatch
  | HistoricalSpendDispatchMsg
  | blockEpochRegistrationMsg blockEpochRegistration

datatype chainNtfn = BlockConnected BlockEpoch | BlockDisconnected BlockEpoch | RelevantTx MsgTx

datatype dispatcherMsg =
    notificationCancels uint64
  | notificationRegistry registerMsg
  | Notifications chainNtfn
  | quitSignal

fun notificationDispatcher_step :: "(BlockEpoch \<Rightarrow> int32 \<Rightarrow> error + BlockEpoch list)
    \<Rightarrow> (uint64 \<Rightarrow> int32 \<Rightarrow> bool) \<Rightarrow> dispatcherMsg \<Rightarrow> LightWalletNotifier
    \<Rightarrow> LightWalletNotifier option" where
  "notificationDispatcher_step GetClientMissedBlocks sendWins (notificationCancels cancelMsg) n =
     Some n"
| "notificationDispatcher_step GetClientMissedBlocks sendWins
     (notificationRegistry (HistoricalConfDispatchMsg msg)) n =
     Some (n\<lparr>goroutines := goroutines n @ [msg]\<rparr>)"
| "notificationDispatcher_step GetClientMissedBlocks sendWins
     (notificationRegistry HistoricalSpendDispatchMsg) n =
     Some n"
| "notificationDispatcher_step GetClientMissedBlocks sendWins
     (notificationRegistry (blockEpochRegistrationMsg msg)) n =
     (let n1 = n\<lparr>blockEpochClients := fmupd (epochID msg) msg (blockEpochClients n)\<rparr>
      in case blockEpochRegistration.bestBlock msg of
           None \<Rightarrow>
             sendErrorChan (epochID msg) None
               (notifyRegistered sendWins (epochID msg)
                  (BlockEpoch.Height (LightWalletNotifier.bestBlock n1))
                  (BlockEpoch.Hash (LightWalletNotifier.bestBlock n1)) n1)
         | Some hint \<Rightarrow>
             (let bestHeight = BlockEpoch.Height (LightWalletNotifier.bestBlock n1)
              in case GetClientMissedBlocks hint bestHeight of
                   Inl err \<Rightarrow> sendErrorChan (epochID msg) (Some err) n1
                 | Inr missedBlocks \<Rightarrow>
                     sendErrorChan (epochID msg) None
                       (notifyMissed sendWins (epochID msg) missedBlocks n1)))"
| "notificationDispatcher_step GetClientMissedBlocks sendWins (Notifications (BlockConnected item)) n =
     Some n"
| "notificationDispatcher_step GetClientMissedBlocks sendWins (Notifications (BlockDisconnected item)) n =
     Some n"
| "notificationDispatcher_step GetClientMissedBlocks sendWins (Notifications (RelevantTx item)) n =
     Some n"
| "notificationDispatcher_step GetClientMissedBlocks sendWins quitSignal n =
     Some (n\<lparr>dispatcherDone := True\<rparr>)"

section \<open>Concrete scenarios\<close>

text \<open>
  The inputs at which the theorems below are evaluated. \<open>spentOutPoints\<close> lists the
  previous-outpoint of every input of every transaction of a block, in block order.
\<close>

definition spentOutPoints :: "Tx list \<Rightarrow> OutPoint list" where
  "spentOutPoints txns = concat (map (\<lambda>tx. map PreviousOutPoint (TxIn (MsgTx tx))) txns)"

definition txA :: hash where
  "txA = 0xA"

definition opA :: OutPoint where
  "opA = \<lparr>OutPoint.Hash = txA, Index = 0\<rparr>"

definition scriptA :: bytes where
  "scriptA = [0x51]"

definition scriptB :: bytes where
  "scriptB = [0x52]"

definition spendA :: MsgTx where
  "spendA = \<lparr>Version = 1,
             TxIn = [\<lparr>PreviousOutPoint = opA, SignatureScript = [], Sequence = 0xFFFFFFFF\<rparr>],
             TxOut = [\<lparr>Value = 1000, PkScript = scriptB\<rparr>],
             LockTime = 0\<rparr>"

definition emptyView :: LWFilteredChainView where
  "emptyView = \<lparr>chainFilter = fmempty, filterMtx = [], blockQueue = [],
                LWFilteredChainView.quit = False\<rparr>"

definition viewA :: LWFilteredChainView where
  "viewA = emptyView\<lparr>chainFilter := fmupd opA scriptA fmempty\<rparr>"

text \<open>A header is identified with its hash in the scenarios.\<close>

definition hash105 :: hash where
  "hash105 = 0x105"

text \<open>
  A backend with two blocks. The compact filter is represented by the list of scripts it
  answers "yes" for. Block 2 (hash 0x102) has no filter and no transactions; block 1
  (hash 0x101) holds \<open>spendA\<close>, which pays to \<open>scriptB\<close>, while its filter also
  answers "yes" for \<open>scriptA\<close>.
\<close>

definition conn1 :: "(bytes list) chainConn" where
  "conn1 =
     \<lparr>GetBlockHash =
        (\<lambda>h. if h = 1 then Inr 0x101 else if h = 2 then Inr 0x102
              else Inl (ErrBackend ''block height out of range'')),
      GetCFilter = (\<lambda>bh. if bh = 0x101 then Inr (Some [scriptA, scriptB]) else Inr None),
      GetFilterBlock = (\<lambda>bh. Inr (if bh = 0x101 then [spendA] else [])),
      GetBlock =
        (\<lambda>bh. Inr \<lparr>MsgBlock.Transactions = (if bh = 0x101 then [spendA] else [])\<rparr>),
      GetRawTransactionVerbose =
        (\<lambda>txid.
           if txid = 0xB1 then Inr \<lparr>Hex = ''01'', BlockHash = ''101''\<rparr>
           else if txid = 0xC1 then Inr \<lparr>Hex = ''02'', BlockHash = []\<rparr>
           else if txid = 0xE1 then Inr \<lparr>Hex = ''03'', BlockHash = ''102''\<rparr>
           else Inl (RPCError (- 5) ''No such mempool or blockchain transaction. Use gettransaction'')),
      GetBlockVerbose =
        (\<lambda>bh. if bh = 0x101 then Inr \<lparr>GetBlockVerboseResult.Tx = [''aa'', ''b1''], Height = 1\<rparr>
               else Inr \<lparr>GetBlockVerboseResult.Tx = [''aa''], Height = 2\<rparr>)\<rparr>"

definition deps1 :: "(bytes list) deps" where
  "deps1 =
     \<lparr>DeriveKey = ucast,
      Match = (\<lambda>f key script. Inr (script \<in> set f)),
      MatchesTx = (\<lambda>r tx. list_ex (\<lambda>out. TxOut.PkScript out = ConfRequest.PkScript r) (TxOut tx)),
      NewHashFromStr =
        (\<lambda>s. if s = ''101'' then Inr 0x101 else if s = ''102'' then Inr 0x102
              else Inl (ErrBackend ''invalid hash string'')),
      HashString =
        (\<lambda>h. if h = 0xB1 then ''b1'' else if h = 0xC1 then ''c1'' else if h = 0xE1 then ''e1''
              else ''d1''),
      DecodeString = (\<lambda>s. if s = ''01'' then Inr [1] else Inl (ErrBackend ''invalid byte'')),
      Deserialize = (\<lambda>raw. if raw = [1] then Inr spendA else Inl (ErrBackend ''unexpected EOF''))\<rparr>"

definition reqA :: ConfRequest where
  "reqA = \<lparr>TxID = 0, PkScript = scriptA\<rparr>"

definition reqB :: ConfRequest where
  "reqB = \<lparr>TxID = 0, PkScript = scriptB\<rparr>"

definition neverQuit :: "uint32 \<Rightarrow> bool" where
  "neverQuit h = False"

definition quitAtOne :: "uint32 \<Rightarrow> bool" where
  "quitAtOne h = (h = 1)"

text \<open>A notifier at tip \<open>(500, 0x500)\<close>, and a fresh registration without a hint.\<close>

definition notifier0 :: LightWalletNotifier where
  "notifier0 =
     \<lparr>blockEpochClients = fmempty,
      bestBlock = \<lparr>BlockEpoch.Height = 500, Hash = 0x500\<rparr>,
      txNotifier = [], goroutines = [], quit = False, dispatcherDone = False\<rparr>"

definition reg1 :: blockEpochRegistration where
  "reg1 = \<lparr>epochID = 1, epochQueue = [], bestBlock = None, errorChan = [], cancelChan = False\<rparr>"

definition notifier1 :: LightWalletNotifier where
  "notifier1 = notifier0\<lparr>blockEpochClients := fmupd 1 reg1 fmempty\<rparr>"

definition noMissedBlocks :: "BlockEpoch \<Rightarrow> int32 \<Rightarrow> error + BlockEpoch list" where
  "noMissedBlocks hint bestHeight = Inr []"

definition alwaysSend :: "uint64 \<Rightarrow> int32 \<Rightarrow> bool" where
  "alwaysSend i h = True"

definition trackerOk :: txNotifierResults where
  "trackerOk = \<lparr>ConnectTipErr = (\<lambda>h ht txs. None), NotifyHeightErr = (\<lambda>ht. None),
                UpdateConfDetailsErr = (\<lambda>r c. None)\<rparr>"

text \<open>
  A second backend whose filters answer "yes" for \<open>scriptA\<close> at every height: block 2
  holds only \<open>spendA\<close>, which does not pay to \<open>scriptA\<close>, and block 1 holds
  \<open>payA\<close>, which does. Further down, a runtime choice that never takes the send, a
  second registration with a hint two blocks behind the tip, and the notifier after the
  first and after the second registration.
\<close>

definition payA :: MsgTx where
  "payA = \<lparr>Version = 1, TxIn = [], TxOut = [\<lparr>Value = 5000, PkScript = scriptA\<rparr>], LockTime = 0\<rparr>"

definition conn2 :: "(bytes list) chainConn" where
  "conn2 = conn1\<lparr>GetCFilter := (\<lambda>bh. Inr (Some [scriptA])),
                 GetFilterBlock := (\<lambda>bh. Inr (if bh = 0x101 then [payA] else [spendA]))\<rparr>"







section \<open>Properties of the filtered chain view\<close>

lemma deleteSpent_chainFilter:
  "chainFilter (deleteSpent ins c) = fmdrop_set (PreviousOutPoint ` set ins) (chainFilter c)"
  by (induction ins arbitrary: c) simp_all

lemma deleteSpent_filterMtx:
  "filterMtx (deleteSpent ins c) =
     filterMtx c @ concat (map (\<lambda>op. [Lock, Delete op, Unlock]) (map PreviousOutPoint ins))"
  by (induction ins arbitrary: c) simp_all

lemma deleteSpent_blockQueue: "blockQueue (deleteSpent ins c) = blockQueue c"
  by (induction ins arbitrary: c) simp_all

lemma connectTxns_fst: "fst (connectTxns txns mtxs c) = mtxs @ map MsgTx txns"
  by (induction txns arbitrary: mtxs c) (simp_all add: Let_def)

lemma connectTxns_chainFilter:
  "chainFilter (snd (connectTxns txns mtxs c)) =
     fmdrop_set (set (spentOutPoints txns)) (chainFilter c)"
  by (induction txns arbitrary: mtxs c)
     (simp_all add: Let_def spentOutPoints_def deleteSpent_chainFilter Un_commute)

lemma connectTxns_filterMtx:
  "filterMtx (snd (connectTxns txns mtxs c)) =
     filterMtx c @ concat (map (\<lambda>op. [Lock, Delete op, Unlock]) (spentOutPoints txns))"
  by (induction txns arbitrary: mtxs c)
     (simp_all add: Let_def spentOutPoints_def deleteSpent_filterMtx)

lemma connectTxns_blockQueue: "blockQueue (snd (connectTxns txns mtxs c)) = blockQueue c"
  by (induction txns arbitrary: mtxs c) (simp_all add: Let_def deleteSpent_blockQueue)

text \<open>
  Claim C4. Processing a connected block removes from the watched-output filter exactly
  the entries whose outpoint is spent by an input of a transaction of the block, each
  removal between a \<open>Lock\<close> and an \<open>Unlock\<close> of the write lock, and enqueues a
  \<open>FilteredBlock\<close> with the block's hash, its height and all of its transactions. In
  the scenario, the filter holds \<open>(txA, 0)\<close>, the block at height 105 spends it, and
  afterwards the filter has no entry for \<open>(txA, 0)\<close> while the filtered block lists the
  spending transaction.
\<close>

theorem onFilteredBlockConnected_removes_spent:
  "chainFilter (onFilteredBlockConnected hdrHash height header txns c) =
     fmdrop_set (set (spentOutPoints txns)) (chainFilter c)
   \<and> filterMtx (onFilteredBlockConnected hdrHash height header txns c) =
       filterMtx c @ concat (map (\<lambda>op. [Lock, Delete op, Unlock]) (spentOutPoints txns))
   \<and> blockQueue (onFilteredBlockConnected hdrHash height header txns c) =
       blockQueue c @
         [\<lparr>eventType = connected,
           block = \<lparr>FilteredBlock.Hash = hdrHash header, Height = uint32_of_int32 height,
                    Transactions = map MsgTx txns\<rparr>\<rparr>]
   \<and> fmlookup (chainFilter viewA) opA = Some scriptA
   \<and> fmlookup (chainFilter (onFilteredBlockConnected id 105 hash105 [NewTx spendA] viewA)) opA = None
   \<and> blockQueue (onFilteredBlockConnected id 105 hash105 [NewTx spendA] viewA) =
       [\<lparr>eventType = connected,
         block = \<lparr>FilteredBlock.Hash = hash105, Height = 105, Transactions = [spendA]\<rparr>\<rparr>]"
proof -
  obtain mtxs c' where r: "connectTxns txns [] c = (mtxs, c')"
    by (cases "connectTxns txns [] c")
  have m: "mtxs = map MsgTx txns"
    using connectTxns_fst [of txns "[]" c] r by simp
  have f: "chainFilter c' = fmdrop_set (set (spentOutPoints txns)) (chainFilter c)"
    using connectTxns_chainFilter [of txns "[]" c] r by simp
  have l: "filterMtx c' =
      filterMtx c @ concat (map (\<lambda>op. [Lock, Delete op, Unlock]) (spentOutPoints txns))"
    using connectTxns_filterMtx [of txns "[]" c] r by simp
  have q: "blockQueue c' = blockQueue c"
    using connectTxns_blockQueue [of txns "[]" c] r by simp
  have gen1: "chainFilter (onFilteredBlockConnected hdrHash height header txns c) =
     fmdrop_set (set (spentOutPoints txns)) (chainFilter c)"
    by (simp add: onFilteredBlockConnected_def r blockQueue_Add_def f)
  have gen2: "filterMtx (onFilteredBlockConnected hdrHash height header txns c) =
       filterMtx c @ concat (map (\<lambda>op. [Lock, Delete op, Unlock]) (spentOutPoints txns))"
    by (simp add: onFilteredBlockConnected_def r blockQueue_Add_def l)
  have gen3: "blockQueue (onFilteredBlockConnected hdrHash height header txns c) =
       blockQueue c @
         [\<lparr>eventType = connected,
           block = \<lparr>FilteredBlock.Hash = hdrHash header, Height = uint32_of_int32 height,
                    Transactions = map MsgTx txns\<rparr>\<rparr>]"
    by (simp add: onFilteredBlockConnected_def r blockQueue_Add_def q m)
  have s1: "fmlookup (chainFilter viewA) opA = Some scriptA"
    by (simp add: viewA_def emptyView_def)
  have s2: "fmlookup (chainFilter (onFilteredBlockConnected id 105 hash105 [NewTx spendA] viewA)) opA
      = None"
    by (simp add: onFilteredBlockConnected_def blockQueue_Add_def Let_def spendA_def viewA_def
        emptyView_def)
  have s3: "blockQueue (onFilteredBlockConnected id 105 hash105 [NewTx spendA] viewA) =
       [\<lparr>eventType = connected,
         block = \<lparr>FilteredBlock.Hash = hash105, Height = 105, Transactions = [spendA]\<rparr>\<rparr>]"
    by (simp add: onFilteredBlockConnected_def blockQueue_Add_def Let_def viewA_def
        emptyView_def uint32_of_int32_def deleteSpent_blockQueue)
  from gen1 gen2 gen3 s1 s2 s3 show ?thesis by blast
qed

text \<open>
  Claim C9. Processing a disconnected block enqueues a \<open>FilteredBlock\<close> with the
  block's hash and height and no transactions, and neither the filter nor its lock is
  touched.
\<close>

theorem onFilteredBlockDisconnected_empty_block:
  "blockQueue (onFilteredBlockDisconnected hdrHash height header c) =
     blockQueue c @
       [\<lparr>eventType = disconnected,
         block = \<lparr>FilteredBlock.Hash = hdrHash header, Height = uint32_of_int32 height,
                  Transactions = []\<rparr>\<rparr>]
   \<and> chainFilter (onFilteredBlockDisconnected hdrHash height header c) = chainFilter c
   \<and> filterMtx (onFilteredBlockDisconnected hdrHash height header c) = filterMtx c"
  by (simp add: onFilteredBlockDisconnected_def blockQueue_Add_def)

text \<open>
  Claim C10. Whenever the height lookup succeeds, \<open>FilterBlock\<close> returns a
  \<open>FilteredBlock\<close> with the given hash, the looked-up height and an empty transaction
  list, whether or not the filter is empty, and the filter is the same afterwards.
\<close>

theorem FilterBlock_no_transactions:
  assumes "GetBlockHeight blockHash = Inr blockHeight"
  shows "fst (FilterBlock GetBlockHeight blockHash c) =
           Inr \<lparr>FilteredBlock.Hash = blockHash, Height = uint32_of_int32 blockHeight,
                Transactions = []\<rparr>
         \<and> chainFilter (snd (FilterBlock GetBlockHeight blockHash c)) = chainFilter c"
  using assms by (simp add: FilterBlock_def Let_def)

theorem FilterBlock_no_transactions_witness:
  "(\<lambda>h. Inr 105) hash105 = (Inr 105 :: error + int32)
   \<and> fmdom (chainFilter viewA) \<noteq> {||}
   \<and> fst (FilterBlock (\<lambda>h. Inr 105) hash105 viewA) =
       Inr \<lparr>FilteredBlock.Hash = hash105, Height = 105, Transactions = []\<rparr>
   \<and> chainFilter (snd (FilterBlock (\<lambda>h. Inr 105) hash105 viewA)) = chainFilter viewA
   \<and> fst (FilterBlock (\<lambda>h. Inr 105) hash105 emptyView) =
       Inr \<lparr>FilteredBlock.Hash = hash105, Height = 105, Transactions = []\<rparr>"
  using FilterBlock_no_transactions [of "\<lambda>h. Inr 105" hash105 105 viewA]
    FilterBlock_no_transactions [of "\<lambda>h. Inr 105" hash105 105 emptyView]
  by (simp add: uint32_of_int32_def viewA_def emptyView_def)

text \<open>No \<open>UpdateFilter\<close> call changes the filter at all.\<close>

lemma UpdateFilter_chainFilter:
  "chainFilter (snd (UpdateFilter sendWins ops updHeight c)) = chainFilter c"
  by (simp add: UpdateFilter_def Let_def)

text \<open>
  Claim C2. The claim says that each \<open>UpdateFilter\<close> call inserts the given outpoints
  into the watched set. On the code, a call with the outpoint \<open>(txA, 0)\<close> on an empty
  filter returns without error and the filter still has no entry for \<open>(txA, 0)\<close>: the
  insertion in \<open>chainFilterer\<close> is commented out.
\<close>

theorem UpdateFilter_does_not_insert:
  "fst (UpdateFilter True [\<lparr>FundingPkScript = scriptA, OutPoint = opA\<rparr>] 100 emptyView) = None
   \<and> fmlookup (chainFilter
        (snd (UpdateFilter True [\<lparr>FundingPkScript = scriptA, OutPoint = opA\<rparr>] 100 emptyView)))
        opA = None"
  by (simp add: UpdateFilter_def Let_def emptyView_def)

section \<open>Properties of the historical resolver\<close>

lemma historicalConfDetails_loop_quit:
  "startHeight \<le> h \<Longrightarrow> 0 < h \<Longrightarrow> quitAt h \<Longrightarrow>
   historicalConfDetails_loop b d quitAt r startHeight h = (None, Some ErrChainNotifierShuttingDown)"
  by (subst historicalConfDetails_loop.simps) simp

lemma confDetailsManually_loop_quit:
  "heightHint \<le> h \<Longrightarrow> 0 < h \<Longrightarrow> quitAt h \<Longrightarrow>
   confDetailsManually_loop b d quitAt r heightHint h =
     (None, TxNotFoundManually, Some ErrChainNotifierShuttingDown)"
  by (subst confDetailsManually_loop.simps) simp

text \<open>
  Claim C8. Both scans read the shutdown signal at the head of every height step: in the
  filter-match scan and in the manual scan, an iteration that starts with shutdown
  signalled returns \<open>ErrChainNotifierShuttingDown\<close> with no confirmation (and, for the
  manual scan, the status \<open>TxNotFoundManually\<close>), whatever the earlier steps found.
\<close>

theorem scans_return_shutting_down:
  "(startHeight \<le> h \<and> 0 < h \<and> quitAt h \<longrightarrow>
      historicalConfDetails_loop b d quitAt r startHeight h =
        (None, Some ErrChainNotifierShuttingDown))
   \<and> (heightHint \<le> h' \<and> 0 < h' \<and> quitAt h' \<longrightarrow>
      confDetailsManually_loop b d quitAt r heightHint h' =
        (None, TxNotFoundManually, Some ErrChainNotifierShuttingDown))"
  using historicalConfDetails_loop_quit confDetailsManually_loop_quit by blast

theorem scans_return_shutting_down_witness:
  "(1::uint32) \<le> 1 \<and> (0::uint32) < 1 \<and> quitAtOne 1 \<and> \<not> quitAtOne 2
   \<and> historicalConfDetails conn1 deps1 quitAtOne reqA 1 2 =
       (None, Some ErrChainNotifierShuttingDown)
   \<and> confDetailsManually conn1 deps1 quitAtOne reqA 1 2 =
       (None, TxNotFoundManually, Some ErrChainNotifierShuttingDown)"
  using scans_return_shutting_down [of 1 1 quitAtOne conn1 deps1 reqA 1 1]
  by (simp add: historicalConfDetails_def confDetailsManually_def conn1_def quitAtOne_def)

text \<open>The filter-match scan of block 1 for \<open>scriptA\<close>, evaluated.\<close>

lemma hist_conn1_reqA_1:
  "historicalConfDetails_loop conn1 deps1 neverQuit reqA 1 1 = (None, None)"
  by (simp add: conn1_def deps1_def neverQuit_def reqA_def spendA_def scriptA_def scriptB_def)

text \<open>
  Claim C3, as stated, fails. The filter of block 1 matches the script of the request,
  no transaction of the block matches the request, and \<open>historicalConfDetails\<close> over
  the range 1..1 returns no confirmation and no error.
\<close>

theorem historicalConfDetails_unmatched_block_no_error:
  "GetBlockHash conn1 1 = Inr 0x101
   \<and> GetCFilter conn1 0x101 = Inr (Some [scriptA, scriptB])
   \<and> Match deps1 [scriptA, scriptB] (DeriveKey deps1 0x101) (ConfRequest.PkScript reqA) = Inr True
   \<and> GetFilterBlock conn1 0x101 = Inr [spendA]
   \<and> \<not> MatchesTx deps1 reqA spendA
   \<and> historicalConfDetails conn1 deps1 neverQuit reqA 1 1 = (None, None)"
  using hist_conn1_reqA_1
  by (simp add: historicalConfDetails_def conn1_def deps1_def reqA_def spendA_def scriptA_def
      scriptB_def)

lemma firstMatch_None_iff: "firstMatch P txs i = None \<longleftrightarrow> (\<forall>tx \<in> set txs. \<not> P tx)"
  by (induction txs arbitrary: i) auto

text \<open>
  Claim C3, amended. When the filter of a height matches the request's script and no
  transaction of that block matches the request, the scan reports no error for that
  height and goes on with the next lower height: the result of the scan from this height
  is the result of the scan from the next lower one, whatever that is, and it is no
  confirmation and no error when no height remains in the range.
\<close>

theorem historicalConfDetails_unmatched_block_continues:
  assumes "startHeight \<le> h" and "0 < h" and "\<not> quitAt h"
    and "GetBlockHash b (ucast h) = Inr blockHash"
    and "GetCFilter b blockHash = Inr (Some cfilter)"
    and "Match d cfilter (DeriveKey d blockHash) (ConfRequest.PkScript r) = Inr True"
    and "GetFilterBlock b blockHash = Inr transactions"
    and "\<forall>tx \<in> set transactions. \<not> MatchesTx d r tx"
  shows "historicalConfDetails_loop b d quitAt r startHeight h =
           historicalConfDetails_loop b d quitAt r startHeight (h - 1)
         \<and> historicalConfDetails b d quitAt r startHeight h =
             historicalConfDetails b d quitAt r startHeight (h - 1)
         \<and> (h - 1 < startHeight \<or> h - 1 = 0 \<longrightarrow>
              historicalConfDetails_loop b d quitAt r startHeight h = (None, None))"
proof -
  have none: "firstMatch (MatchesTx d r) transactions 0 = None"
    using assms(8) by (simp add: firstMatch_None_iff)
  have step: "historicalConfDetails_loop b d quitAt r startHeight h =
           historicalConfDetails_loop b d quitAt r startHeight (h - 1)"
    by (subst historicalConfDetails_loop.simps) (simp add: assms(1-7) none)
  have last: "historicalConfDetails_loop b d quitAt r startHeight (h - 1) = (None, None)"
    if "h - 1 < startHeight \<or> h - 1 = 0"
    using that by (subst historicalConfDetails_loop.simps) (auto simp: not_le word_greater_zero_iff)
  from step last show ?thesis by (simp add: historicalConfDetails_def)
qed

text \<open>
  On the second backend the scan of heights 2..1 passes the unmatched block 2 and finds
  \<open>payA\<close> in block 1.
\<close>

lemma hist_conn2_reqA_2:
  "historicalConfDetails_loop conn2 deps1 neverQuit reqA 1 2 =
     (Some \<lparr>TxConfirmation.Tx = payA, BlockHash = 0x101, BlockHeight = 1, TxIndex = 0\<rparr>, None)"
  by (simp add: conn2_def conn1_def deps1_def neverQuit_def reqA_def spendA_def payA_def
      scriptA_def scriptB_def)

theorem historicalConfDetails_unmatched_block_continues_witness:
  "(1::uint32) \<le> 2 \<and> (0::uint32) < 2 \<and> \<not> neverQuit 2
   \<and> GetBlockHash conn2 (ucast (2::uint32)) = Inr 0x102
   \<and> GetCFilter conn2 0x102 = Inr (Some [scriptA])
   \<and> Match deps1 [scriptA] (DeriveKey deps1 0x102) (ConfRequest.PkScript reqA) = Inr True
   \<and> GetFilterBlock conn2 0x102 = Inr [spendA]
   \<and> \<not> MatchesTx deps1 reqA spendA
   \<and> historicalConfDetails_loop conn2 deps1 neverQuit reqA 1 2 =
       historicalConfDetails_loop conn2 deps1 neverQuit reqA 1 1
   \<and> historicalConfDetails_loop conn2 deps1 neverQuit reqA 1 2 =
       (Some \<lparr>TxConfirmation.Tx = payA, BlockHash = 0x101, BlockHeight = 1, TxIndex = 0\<rparr>, None)
   \<and> (1::uint32) \<le> 1 \<and> (0::uint32) < 1 \<and> \<not> neverQuit 1
   \<and> GetBlockHash conn1 (ucast (1::uint32)) = Inr 0x101
   \<and> GetCFilter conn1 0x101 = Inr (Some [scriptA, scriptB])
   \<and> Match deps1 [scriptA, scriptB] (DeriveKey deps1 0x101) (ConfRequest.PkScript reqA) = Inr True
   \<and> GetFilterBlock conn1 0x101 = Inr [spendA]
   \<and> (1::uint32) - 1 = 0
   \<and> historicalConfDetails_loop conn1 deps1 neverQuit reqA 1 1 = (None, None)"
proof -
  have h2: "(1::uint32) \<le> 2" "(0::uint32) < 2" "\<not> neverQuit 2"
    "GetBlockHash conn2 (ucast (2::uint32)) = Inr 0x102"
    "GetCFilter conn2 0x102 = Inr (Some [scriptA])"
    "Match deps1 [scriptA] (DeriveKey deps1 0x102) (ConfRequest.PkScript reqA) = Inr True"
    "GetFilterBlock conn2 0x102 = Inr [spendA]"
    "\<forall>tx \<in> set [spendA]. \<not> MatchesTx deps1 reqA tx"
    by (simp_all add: neverQuit_def conn2_def conn1_def deps1_def reqA_def spendA_def scriptA_def
        scriptB_def)
  have h1: "(1::uint32) \<le> 1" "(0::uint32) < 1" "\<not> neverQuit 1"
    "GetBlockHash conn1 (ucast (1::uint32)) = Inr 0x101"
    "GetCFilter conn1 0x101 = Inr (Some [scriptA, scriptB])"
    "Match deps1 [scriptA, scriptB] (DeriveKey deps1 0x101) (ConfRequest.PkScript reqA) = Inr True"
    "GetFilterBlock conn1 0x101 = Inr [spendA]"
    "\<forall>tx \<in> set [spendA]. \<not> MatchesTx deps1 reqA tx"
    by (simp_all add: neverQuit_def conn1_def deps1_def reqA_def spendA_def scriptA_def scriptB_def)
  show ?thesis
    using h2 h1 hist_conn2_reqA_2
      historicalConfDetails_unmatched_block_continues
        [where startHeight = 1 and h = 2 and quitAt = neverQuit and b = conn2 and d = deps1
           and r = reqA and blockHash = "0x102" and cfilter = "[scriptA]"
           and transactions = "[spendA]"]
      historicalConfDetails_unmatched_block_continues
        [where startHeight = 1 and h = 1 and quitAt = neverQuit and b = conn1 and d = deps1
           and r = reqA and blockHash = "0x101" and cfilter = "[scriptA, scriptB]"
           and transactions = "[spendA]"]
    by simp
qed

subsection \<open>The transaction-index lookup\<close>

lemma firstTxHash_None_iff: "firstTxHash s hs i = None \<longleftrightarrow> s \<notin> set hs"
  by (induction hs arbitrary: i) auto

lemma firstTxHash_Some:
  "k < length hs \<Longrightarrow> hs ! k = s \<Longrightarrow> (\<forall>j<k. hs ! j \<noteq> s) \<Longrightarrow> firstTxHash s hs i = Some (i + k)"
proof (induction hs arbitrary: i k)
  case Nil
  then show ?case by simp
next
  case (Cons h hs)
  show ?case
  proof (cases k)
    case 0
    with Cons.prems show ?thesis by simp
  next
    case (Suc k')
    from Cons.prems Suc have "h \<noteq> s" by auto
    moreover have "firstTxHash s hs (Suc i) = Some (Suc i + k')"
      using Cons.prems Suc by (intro Cons.IH) auto
    ultimately show ?thesis using Suc by simp
  qed
qed

lemma confDetailsFromTxIndex_status:
  "fst (snd (confDetailsFromTxIndex b d txid)) \<in> {TxNotFoundIndex, TxFoundMempool, TxFoundIndex}"
  by (simp add: confDetailsFromTxIndex_def split: sum.splits error.splits option.splits)

lemma confDetailsFromTxIndex_no_error:
  "snd (snd (confDetailsFromTxIndex b d txid)) = None \<Longrightarrow>
     (fst (snd (confDetailsFromTxIndex b d txid)) = TxNotFoundIndex
        \<and> fst (confDetailsFromTxIndex b d txid) = None)
   \<or> (fst (snd (confDetailsFromTxIndex b d txid)) = TxFoundMempool
        \<and> fst (confDetailsFromTxIndex b d txid) = None)
   \<or> (fst (snd (confDetailsFromTxIndex b d txid)) = TxFoundIndex
        \<and> fst (confDetailsFromTxIndex b d txid) \<noteq> None)"
  by (simp add: confDetailsFromTxIndex_def split: sum.splits error.splits option.splits if_splits)

lemma confDetailsFromTxIndex_not_found:
  "GetRawTransactionVerbose b txid = Inl (RPCError ErrRPCNoTxInfo msg) \<Longrightarrow>
   sublist txNotFoundErr msg \<Longrightarrow>
   confDetailsFromTxIndex b d txid = (None, TxNotFoundIndex, None)"
  by (simp add: confDetailsFromTxIndex_def)

lemma confDetailsFromTxIndex_mempool:
  "GetRawTransactionVerbose b txid = Inr rawTxRes \<Longrightarrow> TxRawResult.BlockHash rawTxRes = [] \<Longrightarrow>
   confDetailsFromTxIndex b d txid = (None, TxFoundMempool, None)"
  by (simp add: confDetailsFromTxIndex_def)

lemma confDetailsFromTxIndex_found:
  assumes "GetRawTransactionVerbose b txid = Inr rawTxRes"
    and "TxRawResult.BlockHash rawTxRes \<noteq> []"
    and "NewHashFromStr d (TxRawResult.BlockHash rawTxRes) = Inr blockHash"
    and "GetBlockVerbose b blockHash = Inr blk"
    and "k < length (GetBlockVerboseResult.Tx blk)"
    and "GetBlockVerboseResult.Tx blk ! k = HashString d txid"
    and "\<forall>j<k. GetBlockVerboseResult.Tx blk ! j \<noteq> HashString d txid"
    and "DecodeString d (Hex rawTxRes) = Inr rawTx"
    and "Deserialize d rawTx = Inr tx"
  shows "confDetailsFromTxIndex b d txid =
           (Some \<lparr>TxConfirmation.Tx = tx, BlockHash = blockHash,
                  BlockHeight = ucast (GetBlockVerboseResult.Height blk),
                  TxIndex = of_nat k\<rparr>, TxFoundIndex, None)"
proof -
  have "firstTxHash (HashString d txid) (GetBlockVerboseResult.Tx blk) 0 = Some (0 + k)"
    using assms(5-7) by (intro firstTxHash_Some) auto
  then show ?thesis
    using assms(1-4,8,9) by (simp add: confDetailsFromTxIndex_def)
qed

lemma confDetailsFromTxIndex_not_in_block:
  assumes "GetRawTransactionVerbose b txid = Inr rawTxRes"
    and "TxRawResult.BlockHash rawTxRes \<noteq> []"
    and "NewHashFromStr d (TxRawResult.BlockHash rawTxRes) = Inr blockHash"
    and "GetBlockVerbose b blockHash = Inr blk"
    and "HashString d txid \<notin> set (GetBlockVerboseResult.Tx blk)"
  shows "confDetailsFromTxIndex b d txid =
           (None, TxNotFoundIndex, Some (Errorf ''unable to locate tx %v in block %v''))"
proof -
  have "firstTxHash (HashString d txid) (GetBlockVerboseResult.Tx blk) 0 = None"
    using assms(5) by (simp add: firstTxHash_None_iff)
  then show ?thesis
    using assms(1-4) by (simp add: confDetailsFromTxIndex_def)
qed

text \<open>
  Claim C6. \<open>confDetailsFromTxIndex\<close> returns one of the three statuses
  \<open>TxNotFoundIndex\<close>, \<open>TxFoundMempool\<close>, \<open>TxFoundIndex\<close>, and a result without
  error is "not found" or "mempool" with no confirmation, or "found in index" with one.
  When the backend reports the transaction missing, the result is "not found in index"
  without error; when the transaction comes back without a block hash, it is "found in
  mempool" with no confirmation and no error; when the confirming block is fetched, its
  listing holds the transaction first at position \<open>k\<close> and the raw transaction
  decodes, it is "found in index" with the block hash, the block height, the index
  \<open>k\<close> and the decoded transaction; and when the listing of the confirming block does
  not hold the transaction, an error is returned.
\<close>

theorem confDetailsFromTxIndex_statuses:
  "fst (snd (confDetailsFromTxIndex b d txid)) \<in> {TxNotFoundIndex, TxFoundMempool, TxFoundIndex}
   \<and> (snd (snd (confDetailsFromTxIndex b d txid)) = None \<longrightarrow>
        (fst (snd (confDetailsFromTxIndex b d txid)) = TxNotFoundIndex
           \<and> fst (confDetailsFromTxIndex b d txid) = None)
      \<or> (fst (snd (confDetailsFromTxIndex b d txid)) = TxFoundMempool
           \<and> fst (confDetailsFromTxIndex b d txid) = None)
      \<or> (fst (snd (confDetailsFromTxIndex b d txid)) = TxFoundIndex
           \<and> fst (confDetailsFromTxIndex b d txid) \<noteq> None))
   \<and> (GetRawTransactionVerbose b txid = Inl (RPCError ErrRPCNoTxInfo msg)
        \<and> sublist txNotFoundErr msg \<longrightarrow>
        confDetailsFromTxIndex b d txid = (None, TxNotFoundIndex, None))
   \<and> (GetRawTransactionVerbose b txid = Inr rawTxRes \<and> TxRawResult.BlockHash rawTxRes = [] \<longrightarrow>
        confDetailsFromTxIndex b d txid = (None, TxFoundMempool, None))
   \<and> (GetRawTransactionVerbose b txid = Inr rawTxRes
        \<and> TxRawResult.BlockHash rawTxRes \<noteq> []
        \<and> NewHashFromStr d (TxRawResult.BlockHash rawTxRes) = Inr blockHash
        \<and> GetBlockVerbose b blockHash = Inr blk
        \<and> k < length (GetBlockVerboseResult.Tx blk)
        \<and> GetBlockVerboseResult.Tx blk ! k = HashString d txid
        \<and> (\<forall>j<k. GetBlockVerboseResult.Tx blk ! j \<noteq> HashString d txid)
        \<and> DecodeString d (Hex rawTxRes) = Inr rawTx
        \<and> Deserialize d rawTx = Inr tx \<longrightarrow>
        confDetailsFromTxIndex b d txid =
          (Some \<lparr>TxConfirmation.Tx = tx, BlockHash = blockHash,
                 BlockHeight = ucast (GetBlockVerboseResult.Height blk),
                 TxIndex = of_nat k\<rparr>, TxFoundIndex, None))
   \<and> (GetRawTransactionVerbose b txid = Inr rawTxRes
        \<and> TxRawResult.BlockHash rawTxRes \<noteq> []
        \<and> NewHashFromStr d (TxRawResult.BlockHash rawTxRes) = Inr blockHash
        \<and> GetBlockVerbose b blockHash = Inr blk
        \<and> HashString d txid \<notin> set (GetBlockVerboseResult.Tx blk) \<longrightarrow>
        confDetailsFromTxIndex b d txid =
          (None, TxNotFoundIndex, Some (Errorf ''unable to locate tx %v in block %v'')))"
  using confDetailsFromTxIndex_status [of b d txid]
    confDetailsFromTxIndex_no_error [of b d txid]
    confDetailsFromTxIndex_not_found [of b txid msg d]
    confDetailsFromTxIndex_mempool [of b txid rawTxRes d]
    confDetailsFromTxIndex_found [of b txid rawTxRes d blockHash blk k rawTx tx]
    confDetailsFromTxIndex_not_in_block [of b txid rawTxRes d blockHash blk]
  by blast


lemma sublist_txNotFoundErr:
  "sublist txNotFoundErr ''No such mempool or blockchain transaction. Use gettransaction''"
  unfolding txNotFoundErr_def by (rule prefix_imp_sublist) simp

theorem confDetailsFromTxIndex_statuses_witness:
  "GetRawTransactionVerbose conn1 0xD1 =
     Inl (RPCError ErrRPCNoTxInfo ''No such mempool or blockchain transaction. Use gettransaction'')
   \<and> sublist txNotFoundErr ''No such mempool or blockchain transaction. Use gettransaction''
   \<and> confDetailsFromTxIndex conn1 deps1 0xD1 = (None, TxNotFoundIndex, None)
   \<and> GetRawTransactionVerbose conn1 0xC1 = Inr \<lparr>Hex = ''02'', BlockHash = []\<rparr>
   \<and> confDetailsFromTxIndex conn1 deps1 0xC1 = (None, TxFoundMempool, None)
   \<and> GetRawTransactionVerbose conn1 0xB1 = Inr \<lparr>Hex = ''01'', BlockHash = ''101''\<rparr>
   \<and> NewHashFromStr deps1 ''101'' = Inr 0x101
   \<and> GetBlockVerbose conn1 0x101 = Inr \<lparr>GetBlockVerboseResult.Tx = [''aa'', ''b1''], Height = 1\<rparr>
   \<and> [''aa'', ''b1''] ! 1 = HashString deps1 0xB1
   \<and> DecodeString deps1 ''01'' = Inr [1]
   \<and> Deserialize deps1 [1] = Inr spendA
   \<and> confDetailsFromTxIndex conn1 deps1 0xB1 =
       (Some \<lparr>TxConfirmation.Tx = spendA, BlockHash = 0x101, BlockHeight = 1, TxIndex = 1\<rparr>,
        TxFoundIndex, None)
   \<and> GetRawTransactionVerbose conn1 0xE1 = Inr \<lparr>Hex = ''03'', BlockHash = ''102''\<rparr>
   \<and> NewHashFromStr deps1 ''102'' = Inr 0x102
   \<and> GetBlockVerbose conn1 0x102 = Inr \<lparr>GetBlockVerboseResult.Tx = [''aa''], Height = 2\<rparr>
   \<and> HashString deps1 0xE1 \<notin> set [''aa'']
   \<and> confDetailsFromTxIndex conn1 deps1 0xE1 =
       (None, TxNotFoundIndex, Some (Errorf ''unable to locate tx %v in block %v''))"
proof -
  have nf: "GetRawTransactionVerbose conn1 0xD1 =
     Inl (RPCError ErrRPCNoTxInfo ''No such mempool or blockchain transaction. Use gettransaction'')"
    by (simp add: conn1_def ErrRPCNoTxInfo_def)
  have mp: "GetRawTransactionVerbose conn1 0xC1 = Inr \<lparr>Hex = ''02'', BlockHash = []\<rparr>"
    by (simp add: conn1_def)
  have fi: "GetRawTransactionVerbose conn1 0xB1 = Inr \<lparr>Hex = ''01'', BlockHash = ''101''\<rparr>"
    "NewHashFromStr deps1 ''101'' = Inr 0x101"
    "GetBlockVerbose conn1 0x101 = Inr \<lparr>GetBlockVerboseResult.Tx = [''aa'', ''b1''], Height = 1\<rparr>"
    "[''aa'', ''b1''] ! 1 = HashString deps1 0xB1"
    "\<forall>j<1::nat. [''aa'', ''b1''] ! j \<noteq> HashString deps1 0xB1"
    "DecodeString deps1 ''01'' = Inr [1]"
    "Deserialize deps1 [1] = Inr spendA"
    by (simp_all add: conn1_def deps1_def)
  have nb: "GetRawTransactionVerbose conn1 0xE1 = Inr \<lparr>Hex = ''03'', BlockHash = ''102''\<rparr>"
    "NewHashFromStr deps1 ''102'' = Inr 0x102"
    "GetBlockVerbose conn1 0x102 = Inr \<lparr>GetBlockVerboseResult.Tx = [''aa''], Height = 2\<rparr>"
    "HashString deps1 0xE1 \<notin> set [''aa'']"
    by (simp_all add: conn1_def deps1_def)
  show ?thesis
    using nf mp fi nb sublist_txNotFoundErr
      confDetailsFromTxIndex_statuses
        [where b = conn1 and d = deps1 and txid = "0xD1"
           and msg = "''No such mempool or blockchain transaction. Use gettransaction''"]
      confDetailsFromTxIndex_statuses
        [where b = conn1 and d = deps1 and txid = "0xC1"
           and rawTxRes = "\<lparr>Hex = ''02'', BlockHash = []\<rparr>"]
      confDetailsFromTxIndex_statuses
        [where b = conn1 and d = deps1 and txid = "0xB1"
           and rawTxRes = "\<lparr>Hex = ''01'', BlockHash = ''101''\<rparr>" and blockHash = "0x101"
           and blk = "\<lparr>GetBlockVerboseResult.Tx = [''aa'', ''b1''], Height = 1\<rparr>"
           and k = 1 and rawTx = "[1]" and tx = spendA]
      confDetailsFromTxIndex_statuses
        [where b = conn1 and d = deps1 and txid = "0xE1"
           and rawTxRes = "\<lparr>Hex = ''03'', BlockHash = ''102''\<rparr>" and blockHash = "0x102"
           and blk = "\<lparr>GetBlockVerboseResult.Tx = [''aa''], Height = 2\<rparr>"]
    by simp
qed

section \<open>Properties of the dispatcher\<close>

text \<open>
  Claim C5. For a historical confirmation dispatch the dispatcher starts one task for
  the message, and when the scan of that task ends without error the task calls
  \<open>UpdateConfDetails\<close> on the tracker with the request and the scan's result,
  whatever it is; in particular with no confirmation when none was found.
\<close>

theorem historical_conf_dispatch_reports_result:
  assumes "historicalConfDetails b d quitAt (ConfRequest msg) (StartHeight msg) (EndHeight msg) =
             (confDetails, None)"
  shows "notificationDispatcher_step GetClientMissedBlocks sendWins
           (notificationRegistry (HistoricalConfDispatchMsg msg)) n =
           Some (n\<lparr>goroutines := goroutines n @ [msg]\<rparr>)
         \<and> txNotifier (historicalConfTask b d quitAt msg n') =
             txNotifier n' @ [UpdateConfDetails (ConfRequest msg) confDetails]"
  using assms by (simp add: historicalConfTask_def)

text \<open>The filter-match scan of blocks 2 and 1 for \<open>scriptA\<close> finds nothing.\<close>

lemma hist_conn1_reqA_2:
  "historicalConfDetails conn1 deps1 neverQuit reqA 1 2 = (None, None)"
  by (simp add: historicalConfDetails_def conn1_def deps1_def neverQuit_def reqA_def spendA_def
      scriptA_def scriptB_def)

theorem historical_conf_dispatch_reports_result_witness:
  "historicalConfDetails conn1 deps1 neverQuit reqA 1 2 = (None, None)
   \<and> notificationDispatcher_step noMissedBlocks alwaysSend
       (notificationRegistry
          (HistoricalConfDispatchMsg \<lparr>ConfRequest = reqA, StartHeight = 1, EndHeight = 2\<rparr>))
       notifier0 =
       Some (notifier0\<lparr>goroutines := [\<lparr>ConfRequest = reqA, StartHeight = 1, EndHeight = 2\<rparr>]\<rparr>)
   \<and> txNotifier
       (historicalConfTask conn1 deps1 neverQuit
          \<lparr>ConfRequest = reqA, StartHeight = 1, EndHeight = 2\<rparr> notifier0) =
       [UpdateConfDetails reqA None]"
  using hist_conn1_reqA_2
    historical_conf_dispatch_reports_result
      [where b = conn1 and d = deps1 and quitAt = neverQuit
         and msg = "\<lparr>ConfRequest = reqA, StartHeight = 1, EndHeight = 2\<rparr>"
         and confDetails = None and n = notifier0 and n' = notifier0
         and GetClientMissedBlocks = noMissedBlocks and sendWins = alwaysSend]
  by (simp add: notifier0_def)









text \<open>
  Claim C1. The claim says that on a connected-block event the dispatcher updates the
  best tip, notifies every registered client and calls the tracker. On the code, with
  the tip at \<open>(500, 0x500)\<close> and one registered client, the event for block
  \<open>(501, 0x501)\<close> leaves the notifier as it was: the tip is still 500, the client's
  queue is empty and the tracker has received no call.
\<close>

theorem dispatcher_ignores_connected_block:
  "notificationDispatcher_step noMissedBlocks alwaysSend
     (Notifications (BlockConnected \<lparr>BlockEpoch.Height = 501, Hash = 0x501\<rparr>)) notifier1 =
     Some notifier1
   \<and> LightWalletNotifier.bestBlock notifier1 = \<lparr>BlockEpoch.Height = 500, Hash = 0x500\<rparr>
   \<and> map_option epochQueue (fmlookup (blockEpochClients notifier1) 1) = Some []
   \<and> txNotifier notifier1 = []"
  by (simp add: notifier1_def notifier0_def reg1_def)

text \<open>
  \<open>handleBlockConnected\<close>, which the dispatcher never calls, does what the claim
  describes when the block is fetched and \<open>ConnectTip\<close> succeeds.
\<close>

lemma handleBlockConnected_ok:
  assumes "GetBlock b (BlockEpoch.Hash blk) = Inr rawBlock"
    and "ConnectTipErr tr (BlockEpoch.Hash blk) (uint32_of_int32 (BlockEpoch.Height blk))
           (map NewTx (MsgBlock.Transactions rawBlock)) = None"
  shows "LightWalletNotifier.bestBlock (snd (handleBlockConnected b tr sendWins blk n)) = blk
    \<and> blockEpochClients (snd (handleBlockConnected b tr sendWins blk n)) =
        fmmap_keys
          (\<lambda>i client. notifyBlockEpochClient (sendWins i (BlockEpoch.Height blk))
             (LightWalletNotifier.quit n) client (BlockEpoch.Height blk) (BlockEpoch.Hash blk))
          (blockEpochClients n)
    \<and> txNotifier (snd (handleBlockConnected b tr sendWins blk n)) =
        txNotifier n @
          [ConnectTip (BlockEpoch.Hash blk) (uint32_of_int32 (BlockEpoch.Height blk))
             (map NewTx (MsgBlock.Transactions rawBlock)),
           NotifyHeight (uint32_of_int32 (BlockEpoch.Height blk))]"
  using assms by (simp add: handleBlockConnected_def Let_def notifyBlockEpochs_def)

text \<open>
  On the same notifier and block, \<open>handleBlockConnected\<close> moves the tip to 501, queues
  the epoch for the client and calls \<open>ConnectTip\<close> and then \<open>NotifyHeight\<close>.
\<close>

lemma handleBlockConnected_notifier1:
  "fst (handleBlockConnected conn1 trackerOk alwaysSend
          \<lparr>BlockEpoch.Height = 501, Hash = 0x501\<rparr> notifier1) = None
   \<and> LightWalletNotifier.bestBlock
       (snd (handleBlockConnected conn1 trackerOk alwaysSend
               \<lparr>BlockEpoch.Height = 501, Hash = 0x501\<rparr> notifier1)) =
       \<lparr>BlockEpoch.Height = 501, Hash = 0x501\<rparr>
   \<and> map_option epochQueue
       (fmlookup
          (blockEpochClients
             (snd (handleBlockConnected conn1 trackerOk alwaysSend
                     \<lparr>BlockEpoch.Height = 501, Hash = 0x501\<rparr> notifier1))) 1) =
       Some [\<lparr>BlockEpoch.Height = 501, Hash = 0x501\<rparr>]
   \<and> txNotifier
       (snd (handleBlockConnected conn1 trackerOk alwaysSend
               \<lparr>BlockEpoch.Height = 501, Hash = 0x501\<rparr> notifier1)) =
       [ConnectTip 0x501 501 [], NotifyHeight 501]"
  by (simp add: handleBlockConnected_def Let_def notifyBlockEpochs_def notifyBlockEpochClient_def
      conn1_def trackerOk_def alwaysSend_def notifier1_def notifier0_def reg1_def
      uint32_of_int32_def)

end
